theory Spec2Isabelle
  imports Complex_Main
begin

section \<open>Values\<close>

text \<open>
  The values that \<^verbatim>\<open>parse\<close> builds and \<^verbatim>\<open>stringify\<close> walks (\<^verbatim>\<open>QueryValue\<close> in
  \<^verbatim>\<open>types.ts\<close>). A mapping is the list of its own enumerable properties in the order
  \<^verbatim>\<open>Object.keys\<close> reports them; a sequence is the list of its slots, a hole and a stored
  \<^verbatim>\<open>undefined\<close> both being \<open>JUndefined\<close> (the code never tells them apart: it only
  compares a slot with \<^verbatim>\<open>undefined\<close>, pushes, filters and joins).

  Scope of the embedding.
  \<^item> A string is well-formed Unicode text, held as its UTF-8 bytes; all scanning in the
    code compares with ASCII characters only, so a scan over bytes and a scan over UTF-16
    code units agree.
  \<^item> A number is the exact decimal it is written as (\<open>rat\<close>); \<^verbatim>\<open>NaN\<close> and the
    infinities are not represented, and \<^verbatim>\<open>String\<close> of a number is \<open>Unmodelled\<close> where
    the double of the code would print in exponent notation or after rounding.
  \<^item> A value does not record whether its mappings have a prototype. The parser makes
    all of them with \<^verbatim>\<open>Object.prototype\<close>, or all of them without when \<^verbatim>\<open>plainObjects\<close>
    is on; the functions of the stringifier take as their first argument \<open>plain\<close>
    whether the mappings of the input are without a prototype.
  \<^item> \<open>JBuiltin k\<close> is the member \<open>k\<close> that an object created by \<^verbatim>\<open>{}\<close> inherits from
    \<^verbatim>\<open>Object.prototype\<close>; the parser reads it through \<^verbatim>\<open>obj[key]\<close> when \<open>key\<close> is not
    an own property and \<^verbatim>\<open>plainObjects\<close> is off.
  \<^item> \<^verbatim>\<open>Date\<close> values and the options \<^verbatim>\<open>parseDates\<close>, \<^verbatim>\<open>serializeDate\<close>, \<^verbatim>\<open>charset\<close>,
    \<^verbatim>\<open>charsetSentinel\<close>, \<^verbatim>\<open>interpretNumericEntities\<close>, \<^verbatim>\<open>decoder\<close> and \<^verbatim>\<open>encoder\<close> are left
    at their defaults and have no field in the option records; the delimiter is a
    string.
  \<^item> \<open>TypeError\<close> and \<open>RangeError\<close> are the errors of the runtime: a call of
    \<^verbatim>\<open>push\<close> on a value that has none, an assignment to a property of a primitive
    (the source files are modules, and so strict code), a \<^verbatim>\<open>String\<close> conversion that
    finds no function to call, and a recursion that exhausts the stack.
  \<^item> \<open>Unmodelled\<close> is returned where the source goes on in a way this value type
    cannot hold (a write through an inherited member, a named property on a sequence or
    on a primitive); no theorem below draws a conclusion from it.
\<close>

datatype jsval =
    JUndefined
  | JNull
  | JBool bool
  | JNum rat
  | JStr string
  | JArr "jsval list"
  | JObj "(string \<times> jsval) list"
  | JBuiltin string

datatype error =
    TsQsError string
  | TypeError
  | RangeError
  | Unmodelled

datatype DuplicateStrategy = Combine | First | Last

record ParseOptions =
  allowDots :: bool
  allowEmptyArrays :: bool
  allowPrototypes :: bool
  allowSparse :: bool
  arrayLimit :: nat
  comma :: bool
  decodeDotInKeys :: bool
  delimiter :: string
  depth :: nat
  duplicates :: DuplicateStrategy
  ignoreQueryPrefix :: bool
  parameterLimit :: nat
  parseArrays :: bool
  plainObjects :: bool
  strictNullHandling :: bool
  strictDepth :: bool
  parseNumbers :: bool
  parseBooleans :: bool

text \<open>The defaults of \<^verbatim>\<open>ParseConfig\<close>.\<close>

definition defaultParseOptions :: ParseOptions where
  "defaultParseOptions =
     \<lparr> allowDots = False, allowEmptyArrays = False, allowPrototypes = False,
       allowSparse = False, arrayLimit = 20, comma = False, decodeDotInKeys = False,
       delimiter = ''&'', depth = 5, duplicates = Combine, ignoreQueryPrefix = False,
       parameterLimit = 1000, parseArrays = True, plainObjects = False,
       strictNullHandling = False, strictDepth = False, parseNumbers = False,
       parseBooleans = False \<rparr>"

section \<open>Decimal numerals\<close>

definition isDigit :: "char \<Rightarrow> bool" where
  "isDigit c = (c \<in> set ''0123456789'')"

definition digitVal :: "char \<Rightarrow> nat" where
  "digitVal c = of_char c - 48"

definition digitsVal :: "string \<Rightarrow> nat" where
  "digitsVal s = foldl (\<lambda>a c. 10 * a + digitVal c) 0 s"

definition digitChar :: "nat \<Rightarrow> char" where
  "digitChar n = char_of (48 + n)"

fun showNat :: "nat \<Rightarrow> string" where
  "showNat n = (if n < 10 then [digitChar n] else showNat (n div 10) @ [digitChar (n mod 10)])"

declare showNat.simps [simp del]

fun fracDigits :: "nat \<Rightarrow> rat \<Rightarrow> string" where
  "fracDigits 0 f = []"
| "fracDigits (Suc fuel) f =
     (if f = 0 then []
      else digitChar (nat \<lfloor>f * 10\<rfloor>) # fracDigits fuel (f * 10 - of_int \<lfloor>f * 10\<rfloor>))"

text \<open>The number of significant digits of a numeral: its length without the zeros at
  either end.\<close>

definition sigDigits :: "string \<Rightarrow> nat" where
  "sigDigits ds =
     length (dropWhile (\<lambda>c. c = CHR ''0'') (rev (dropWhile (\<lambda>c. c = CHR ''0'') ds)))"

text \<open>\<^verbatim>\<open>String(n)\<close> for a number. The code holds the double nearest to the decimal, and
  prints the shortest decimal that reads back as that double: the decimal itself when
  it has at most 15 significant digits. It prints it in positional notation when the
  number is zero or at least \<open>10^-6\<close> and below \<open>10^21\<close>, and in exponent notation
  otherwise. Exponent notation and decimals of more than 15 significant digits are
  \<open>Unmodelled\<close>.\<close>

definition numToString :: "rat \<Rightarrow> error + string" where
  "numToString r =
     (let a = \<bar>r\<bar>; ip = \<lfloor>a\<rfloor>; f = a - of_int ip; fs = fracDigits 21 f
      in if r = 0 then Inr ''0''
         else if a < 1 / 1000000 \<or> 1000000000000000000000 \<le> a then Inl Unmodelled
         else if of_nat (digitsVal fs) / 10 ^ length fs \<noteq> f then Inl Unmodelled
         else if 15 < sigDigits (showNat (nat ip) @ fs) then Inl Unmodelled
         else Inr ((if r < 0 then ''-'' else []) @ showNat (nat ip) @
                   (if fs = [] then [] else ''.'' @ fs)))"

section \<open>Helpers (utils.ts)\<close>

text \<open>\<^verbatim>\<open>isObject\<close>: not \<^verbatim>\<open>null\<close>, \<^verbatim>\<open>typeof\<close> object, not an array. Of the inherited
  members only \<^verbatim>\<open>__proto__\<close>, which is \<^verbatim>\<open>Object.prototype\<close> itself, is an object; the
  others are functions.\<close>

fun isObject :: "jsval \<Rightarrow> bool" where
  "isObject (JObj ps) = True"
| "isObject (JBuiltin k) = (k = ''__proto__'')"
| "isObject v = False"

fun isArray :: "jsval \<Rightarrow> bool" where
  "isArray (JArr xs) = True"
| "isArray v = False"

text \<open>The truth value of a value in a condition (\<^verbatim>\<open>!obj[currentKey]\<close>).\<close>

fun truthy :: "jsval \<Rightarrow> bool" where
  "truthy JUndefined = False"
| "truthy JNull = False"
| "truthy (JBool b) = b"
| "truthy (JNum r) = (r \<noteq> 0)"
| "truthy (JStr s) = (s \<noteq> [])"
| "truthy (JArr xs) = True"
| "truthy (JObj ps) = True"
| "truthy (JBuiltin k) = True"

definition compactArray :: "jsval list \<Rightarrow> jsval list" where
  "compactArray arr = filter (\<lambda>item. item \<noteq> JUndefined) arr"

text \<open>\<^verbatim>\<open>/^-?\d+(\.\d+)?$/\<close>; the second conjunct of the source, \<^verbatim>\<open>!isNaN(Number(str))\<close>,
  holds of every string the pattern accepts.\<close>

definition isNumericString :: "string \<Rightarrow> bool" where
  "isNumericString str =
     (let t = (case str of c # r \<Rightarrow> if c = CHR ''-'' then r else str | [] \<Rightarrow> str);
          ip = takeWhile isDigit t; rest = dropWhile isDigit t
      in ip \<noteq> [] \<and>
         (case rest of [] \<Rightarrow> True
          | c # fr \<Rightarrow> c = CHR ''.'' \<and> fr \<noteq> [] \<and> list_all isDigit fr))"

text \<open>\<^verbatim>\<open>Number(str)\<close> on a string that \<open>isNumericString\<close> accepts.\<close>

definition Number :: "string \<Rightarrow> rat" where
  "Number str =
     (let neg = (case str of c # r \<Rightarrow> c = CHR ''-'' | [] \<Rightarrow> False);
          t = (if neg then tl str else str);
          ip = takeWhile isDigit t; fr = drop 1 (dropWhile isDigit t);
          a = of_nat (digitsVal ip) + of_nat (digitsVal fr) / 10 ^ length fr
      in if neg then - a else a)"

definition isBooleanString :: "string \<Rightarrow> bool" where
  "isBooleanString str = (str = ''true'' \<or> str = ''false'')"

text \<open>\<^verbatim>\<open>autoConvert\<close>, without its last parameter \<^verbatim>\<open>parseDates\<close> (off).\<close>

definition autoConvert :: "string \<Rightarrow> bool \<Rightarrow> bool \<Rightarrow> jsval" where
  "autoConvert str pNumbers pBooleans =
     (if str = [] then JStr str
      else if pBooleans \<and> isBooleanString str then JBool (str = ''true'')
      else if pNumbers \<and> isNumericString str then JNum (Number str)
      else JStr str)"

definition hasPrototypePollution :: "string \<Rightarrow> bool" where
  "hasPrototypePollution key =
     (key = ''__proto__'' \<or> key = ''constructor'' \<or> key = ''prototype'')"

text \<open>\<^verbatim>\<open>/^\d+$/\<close>.\<close>

definition isArrayIndex :: "string \<Rightarrow> bool" where
  "isArrayIndex key = (key \<noteq> [] \<and> list_all isDigit key)"

text \<open>\<^verbatim>\<open>parseBracketNotation\<close>: the loop over the characters of the key, with the loop
  variables \<^verbatim>\<open>current\<close>, \<^verbatim>\<open>inBrackets\<close>, \<^verbatim>\<open>bracketDepth\<close> and \<^verbatim>\<open>segments\<close> as arguments.\<close>

fun bracketScan :: "string \<Rightarrow> string \<Rightarrow> bool \<Rightarrow> nat \<Rightarrow> string list \<Rightarrow> string list" where
  "bracketScan [] current inBrackets bracketDepth segments =
     (if current \<noteq> [] then segments @ [current] else segments)"
| "bracketScan (c # cs) current inBrackets bracketDepth segments =
     (if c = CHR ''['' \<and> \<not> inBrackets then
        bracketScan cs [] True 1 (if current \<noteq> [] then segments @ [current] else segments)
      else if c = CHR ''['' \<and> inBrackets then
        bracketScan cs (current @ [c]) inBrackets (bracketDepth + 1) segments
      else if c = CHR '']'' \<and> inBrackets then
        (if bracketDepth - 1 = 0 then bracketScan cs [] False (bracketDepth - 1) (segments @ [current])
         else bracketScan cs (current @ [c]) inBrackets (bracketDepth - 1) segments)
      else bracketScan cs (current @ [c]) inBrackets bracketDepth segments)"

definition parseBracketNotation :: "string \<Rightarrow> string list" where
  "parseBracketNotation key = bracketScan key [] False 0 []"

text \<open>\<^verbatim>\<open>checkLimit\<close>: the error it throws, if any.\<close>

definition upperChar :: "char \<Rightarrow> char" where
  "upperChar c =
     (let n = (of_char c :: nat) in if 97 \<le> n \<and> n \<le> 122 then char_of (n - 32) else c)"

definition checkLimit :: "nat \<Rightarrow> nat \<Rightarrow> string \<Rightarrow> bool \<Rightarrow> error option" where
  "checkLimit current limit type throwOnExceeded =
     (if current > limit then
        (if throwOnExceeded then Some (TsQsError (''LIMIT_EXCEEDED_'' @ map upperChar type))
         else None)
      else None)"


text \<open>\<^verbatim>\<open>splitByDelimiter\<close> with a string delimiter: \<^verbatim>\<open>str.split(delimiter)\<close>, for a delimiter
  that is not empty. The second argument collects the piece being read.\<close>

function splitOn :: "string \<Rightarrow> string \<Rightarrow> string \<Rightarrow> string list" where
  "splitOn d cur [] = [cur]"
| "splitOn d cur (c # cs) =
     (if d \<noteq> [] \<and> take (length d) (c # cs) = d
      then cur # splitOn d [] (drop (length d) (c # cs))
      else splitOn d (cur @ [c]) cs)"
  by pat_completeness auto
termination
  by (relation "measure (\<lambda>(d, cur, s). length s)") auto

definition splitByDelimiter :: "string \<Rightarrow> string \<Rightarrow> string list" where
  "splitByDelimiter str d = splitOn d [] str"

section \<open>Properties of a mapping\<close>

text \<open>The members of \<^verbatim>\<open>Object.prototype\<close>.\<close>

definition objectPrototypeKeys :: "string list" where
  "objectPrototypeKeys =
     [''constructor'', ''__defineGetter__'', ''__defineSetter__'', ''hasOwnProperty'',
      ''__lookupGetter__'', ''__lookupSetter__'', ''isPrototypeOf'',
      ''propertyIsEnumerable'', ''toString'', ''valueOf'', ''__proto__'',
      ''toLocaleString'']"

text \<open>\<^verbatim>\<open>obj[key]\<close> read: the own property, else the inherited member unless the object
  was made by \<^verbatim>\<open>createPlainObject\<close>, else \<^verbatim>\<open>undefined\<close>.\<close>

definition getProp :: "bool \<Rightarrow> (string \<times> jsval) list \<Rightarrow> string \<Rightarrow> jsval" where
  "getProp plain obj key =
     (case map_of obj key of
        Some v \<Rightarrow> v
      | None \<Rightarrow> if \<not> plain \<and> key \<in> set objectPrototypeKeys then JBuiltin key else JUndefined)"

text \<open>The range of array indices of the language: below \<open>2^32 - 1\<close>.\<close>

definition arrayIndexRange :: "nat \<Rightarrow> bool" where
  "arrayIndexRange n = (int n < 4294967295)"

text \<open>An integer index in the sense of the language's property order: a decimal numeral
  without leading zero, in that range.\<close>

definition isCanonicalIndex :: "string \<Rightarrow> bool" where
  "isCanonicalIndex key =
     (isArrayIndex key \<and> (key = ''0'' \<or> hd key \<noteq> CHR ''0'') \<and> arrayIndexRange (digitsVal key))"

fun updProp :: "string \<Rightarrow> 'v \<Rightarrow> (string \<times> 'v) list \<Rightarrow> (string \<times> 'v) list" where
  "updProp key v [] = []"
| "updProp key v ((k, w) # ps) = (if k = key then (k, v) # ps else (k, w) # updProp key v ps)"

fun insProp :: "string \<Rightarrow> 'v \<Rightarrow> (string \<times> 'v) list \<Rightarrow> (string \<times> 'v) list" where
  "insProp key v [] = [(key, v)]"
| "insProp key v ((k, w) # ps) =
     (if isCanonicalIndex key \<and> (\<not> isCanonicalIndex k \<or> digitsVal key < digitsVal k)
      then (key, v) # (k, w) # ps
      else (k, w) # insProp key v ps)"

text \<open>\<^verbatim>\<open>obj[key] = v\<close>: an own property keeps its place; a new one goes after the others,
  integer indices first and in ascending order, as \<^verbatim>\<open>Object.keys\<close> lists them.\<close>

definition setProp :: "(string \<times> 'v) list \<Rightarrow> string \<Rightarrow> 'v \<Rightarrow> (string \<times> 'v) list" where
  "setProp obj key v = (if key \<in> fst ` set obj then updProp key v obj else insProp key v obj)"

text \<open>\<^verbatim>\<open>safeSetProperty\<close>. On an object with a prototype, assigning to \<^verbatim>\<open>__proto__\<close>
  runs the inherited setter instead of adding a property.\<close>

definition safeSetProperty ::
  "bool \<Rightarrow> (string \<times> jsval) list \<Rightarrow> string \<Rightarrow> jsval \<Rightarrow> bool \<Rightarrow> error + (string \<times> jsval) list" where
  "safeSetProperty plain obj key v allowProto =
     (if \<not> allowProto \<and> hasPrototypePollution key then Inr obj
      else if key = ''__proto__'' \<and> \<not> plain \<and> map_of obj key = None then Inl Unmodelled
      else Inr (setProp obj key v))"

text \<open>\<^verbatim>\<open>arr[index] = v\<close> on an array: a write past the end leaves holes before it.\<close>

definition setIndex :: "jsval list \<Rightarrow> nat \<Rightarrow> jsval \<Rightarrow> jsval list" where
  "setIndex arr i v =
     (if i < length arr then arr[i := v]
      else arr @ replicate (i - length arr) JUndefined @ [v])"

text \<open>\<^verbatim>\<open>maybeConvertToArray\<close>. \<^verbatim>\<open>Number(key)\<close> of a key of decimal digits is its value; an
  index from \<open>2^32 - 1\<close> on is no array index of the language (the write adds a named
  property to the array) and is left out.\<close>

definition maybeConvertToArray :: "(string \<times> jsval) list \<Rightarrow> bool \<Rightarrow> error + jsval" where
  "maybeConvertToArray obj sparse =
     (let keys = map fst obj
      in if keys = [] then Inr (JObj obj)
         else if \<not> list_all isArrayIndex keys then Inr (JObj obj)
         else
           (let indices = sort (map digitsVal keys);
                maxIndex = foldl max 0 indices
            in if \<not> sparse \<and> maxIndex \<ge> length keys * 2 then Inr (JObj obj)
               else if \<not> list_all (\<lambda>key. arrayIndexRange (digitsVal key)) keys then Inl Unmodelled
               else
                 (let arr = foldl (\<lambda>arr key. setIndex arr (digitsVal key) (getProp True obj key))
                              [] keys
                  in Inr (JArr (if sparse then arr else compactArray arr)))))"

section \<open>Decoding (encoding.ts)\<close>

definition hexVal :: "char \<Rightarrow> nat option" where
  "hexVal c =
     (let n = (of_char c :: nat)
      in if 48 \<le> n \<and> n \<le> 57 then Some (n - 48)
         else if 65 \<le> n \<and> n \<le> 70 then Some (n - 55)
         else if 97 \<le> n \<and> n \<le> 102 then Some (n - 87)
         else None)"

definition hexByte :: "char \<Rightarrow> char \<Rightarrow> nat option" where
  "hexByte h1 h2 =
     (case hexVal h1 of None \<Rightarrow> None
      | Some a \<Rightarrow> (case hexVal h2 of None \<Rightarrow> None | Some b \<Rightarrow> Some (16 * a + b)))"

text \<open>The number of octets that a leading octet announces.\<close>

definition seqLen :: "nat \<Rightarrow> nat option" where
  "seqLen b =
     (if 192 \<le> b \<and> b \<le> 223 then Some 2
      else if 224 \<le> b \<and> b \<le> 239 then Some 3
      else if 240 \<le> b \<and> b \<le> 247 then Some 4
      else None)"

text \<open>The well-formed UTF-8 octet sequences of one code point with more than one octet.\<close>

fun validUtf8 :: "nat list \<Rightarrow> bool" where
  "validUtf8 [a, b] = (194 \<le> a \<and> a \<le> 223 \<and> 128 \<le> b \<and> b \<le> 191)"
| "validUtf8 [a, b, c] =
     (128 \<le> c \<and> c \<le> 191 \<and>
      ((a = 224 \<and> 160 \<le> b \<and> b \<le> 191) \<or>
       (225 \<le> a \<and> a \<le> 236 \<and> 128 \<le> b \<and> b \<le> 191) \<or>
       (a = 237 \<and> 128 \<le> b \<and> b \<le> 159) \<or>
       (238 \<le> a \<and> a \<le> 239 \<and> 128 \<le> b \<and> b \<le> 191)))"
| "validUtf8 [a, b, c, e] =
     (128 \<le> c \<and> c \<le> 191 \<and> 128 \<le> e \<and> e \<le> 191 \<and>
      ((a = 240 \<and> 144 \<le> b \<and> b \<le> 191) \<or>
       (241 \<le> a \<and> a \<le> 243 \<and> 128 \<le> b \<and> b \<le> 191) \<or>
       (a = 244 \<and> 128 \<le> b \<and> b \<le> 143)))"
| "validUtf8 bs = False"

text \<open>\<^verbatim>\<open>decodeURIComponent\<close> of the platform; \<open>None\<close> is its \<^verbatim>\<open>URIError\<close>. The first two
  arguments hold the octets read so far of a code point in progress and the number of
  escapes it still needs.\<close>

fun decodeFrom :: "nat list \<Rightarrow> nat \<Rightarrow> string \<Rightarrow> string option" where
  "decodeFrom acc need [] = (if need = 0 then Some [] else None)"
| "decodeFrom acc need (c # cs) =
     (if c = CHR ''%'' then
        (case cs of
           h1 # h2 # rest \<Rightarrow>
             (case hexByte h1 h2 of
                None \<Rightarrow> None
              | Some b \<Rightarrow>
                  if need = 0 then
                    (if b < 128 then map_option (\<lambda>r. char_of b # r) (decodeFrom [] 0 rest)
                     else (case seqLen b of
                             None \<Rightarrow> None
                           | Some k \<Rightarrow> decodeFrom [b] (k - 1) rest))
                  else if need = 1 then
                    (if validUtf8 (acc @ [b])
                     then map_option (\<lambda>r. map char_of (acc @ [b]) @ r) (decodeFrom [] 0 rest)
                     else None)
                  else decodeFrom (acc @ [b]) (need - 1) rest)
         | _ \<Rightarrow> None)
      else if need = 0 then map_option (\<lambda>r. c # r) (decodeFrom [] 0 cs)
      else None)"

definition decodeURIComponent :: "string \<Rightarrow> string option" where
  "decodeURIComponent str = decodeFrom [] 0 str"

text \<open>\<^verbatim>\<open>defaultDecoder\<close>: \<^verbatim>\<open>+\<close> is a space; a malformed escape gives the string back as it
  came.\<close>

definition defaultDecoder :: "string \<Rightarrow> string" where
  "defaultDecoder str =
     (case decodeURIComponent (map (\<lambda>c. if c = CHR ''+'' then CHR '' '' else c) str) of
        Some d \<Rightarrow> d
      | None \<Rightarrow> str)"


section \<open>Parser (parser.ts)\<close>

text \<open>\<^verbatim>\<open>String.prototype.trim\<close>: the white space and line terminators of the language, as
  UTF-8 octets.\<close>

definition whiteSpace :: "string list" where
  "whiteSpace =
     [[CHR 0x09], [CHR 0x0A], [CHR 0x0B], [CHR 0x0C], [CHR 0x0D], [CHR 0x20],
      [CHR 0xC2, CHR 0xA0], [CHR 0xE1, CHR 0x9A, CHR 0x80],
      [CHR 0xE2, CHR 0x80, CHR 0x80], [CHR 0xE2, CHR 0x80, CHR 0x81],
      [CHR 0xE2, CHR 0x80, CHR 0x82], [CHR 0xE2, CHR 0x80, CHR 0x83],
      [CHR 0xE2, CHR 0x80, CHR 0x84], [CHR 0xE2, CHR 0x80, CHR 0x85],
      [CHR 0xE2, CHR 0x80, CHR 0x86], [CHR 0xE2, CHR 0x80, CHR 0x87],
      [CHR 0xE2, CHR 0x80, CHR 0x88], [CHR 0xE2, CHR 0x80, CHR 0x89],
      [CHR 0xE2, CHR 0x80, CHR 0x8A], [CHR 0xE2, CHR 0x80, CHR 0xA8],
      [CHR 0xE2, CHR 0x80, CHR 0xA9], [CHR 0xE2, CHR 0x80, CHR 0xAF],
      [CHR 0xE2, CHR 0x81, CHR 0x9F], [CHR 0xE3, CHR 0x80, CHR 0x80],
      [CHR 0xEF, CHR 0xBB, CHR 0xBF]]"

definition wsPrefixLen :: "string list \<Rightarrow> string \<Rightarrow> nat" where
  "wsPrefixLen ws s =
     (case find (\<lambda>w. w \<noteq> [] \<and> take (length w) s = w) ws of Some w \<Rightarrow> length w | None \<Rightarrow> 0)"

function trimStartWith :: "string list \<Rightarrow> string \<Rightarrow> string" where
  "trimStartWith ws s =
     (if s = [] \<or> wsPrefixLen ws s = 0 then s else trimStartWith ws (drop (wsPrefixLen ws s) s))"
  by pat_completeness auto
termination
  by (relation "measure (\<lambda>(ws, s). length s)") auto

declare trimStartWith.simps [simp del]

definition trim :: "string \<Rightarrow> string" where
  "trim s = rev (trimStartWith (map rev whiteSpace) (rev (trimStartWith whiteSpace s)))"

text \<open>\<^verbatim>\<open>key.replace(/%2E/g, '.')\<close>.\<close>

fun replace2E :: "string \<Rightarrow> string" where
  "replace2E (a # b # c # r) =
     (if a = CHR ''%'' \<and> b = CHR ''2'' \<and> c = CHR ''E'' then CHR ''.'' # replace2E r
      else a # replace2E (b # c # r))"
| "replace2E s = s"

definition parseKeyPath :: "string \<Rightarrow> ParseOptions \<Rightarrow> string list" where
  "parseKeyPath key opts =
     (if allowDots opts \<and> CHR ''.'' \<in> set key then
        splitOn ''.'' [] (if decodeDotInKeys opts then replace2E key else key)
      else if CHR ''['' \<in> set key then parseBracketNotation key
      else [key])"

definition handleDuplicateKey ::
  "(string \<times> jsval) list \<Rightarrow> string \<Rightarrow> jsval \<Rightarrow> ParseOptions \<Rightarrow> error + (string \<times> jsval) list" where
  "handleDuplicateKey obj key v opts =
     (let existing = getProp (plainObjects opts) obj key
      in if existing = JUndefined then
           safeSetProperty (plainObjects opts) obj key v (allowPrototypes opts)
         else (case duplicates opts of
                 First \<Rightarrow> Inr obj
               | Last \<Rightarrow> safeSetProperty (plainObjects opts) obj key v (allowPrototypes opts)
               | Combine \<Rightarrow>
                   (case existing of
                      JArr xs \<Rightarrow> Inr (setProp obj key (JArr (xs @ [v])))
                    | _ \<Rightarrow> safeSetProperty (plainObjects opts) obj key (JArr [existing, v])
                            (allowPrototypes opts))))"

text \<open>The key that the segments past the depth limit collapse into:
  \<^verbatim>\<open>keyPath[0] + keyPath.slice(1).map(k => `[${k}]`).join('')\<close>.\<close>

definition collapsedKey :: "string list \<Rightarrow> string" where
  "collapsedKey keyPath =
     (case keyPath of
        [] \<Rightarrow> ''undefined''
      | k # ks \<Rightarrow> k @ concat (map (\<lambda>k. ''['' @ k @ '']'') ks))"

text \<open>\<^verbatim>\<open>(nextKey && isArrayIndex(nextKey)) || nextKey === ''\<close>.\<close>

definition isArrayAccess :: "string \<Rightarrow> bool" where
  "isArrayAccess nextKey = ((nextKey \<noteq> [] \<and> isArrayIndex nextKey) \<or> nextKey = [])"

text \<open>The copy loop of \<^verbatim>\<open>handleArrayValue\<close>: the elements of the array that are not
  \<^verbatim>\<open>undefined\<close>, under their indices as keys.\<close>

definition copyElements :: "jsval list \<Rightarrow> (string \<times> jsval) list" where
  "copyElements arr =
     foldl (\<lambda>objValue i. if arr ! i \<noteq> JUndefined then setProp objValue (showNat i) (arr ! i)
                          else objValue)
       [] [0 ..< length arr]"

text \<open>
  \<^verbatim>\<open>setNestedValue\<close> and \<^verbatim>\<open>handleArrayValue\<close>. The source updates \<open>obj\<close> in place; here
  both return the updated \<open>obj\<close>, or the error thrown. \<open>TypeError\<close> is what the
  runtime throws when \<^verbatim>\<open>arr.push\<close> is called on a value that is not an array. With a
  number or a boolean as \<^verbatim>\<open>arr\<close>, \<^verbatim>\<open>arr.length\<close> is \<^verbatim>\<open>undefined\<close>, the loop that extends
  the array is not entered, and the assignment to \<^verbatim>\<open>arr[index]\<close> throws. With a string
  as \<^verbatim>\<open>arr\<close>, the loop calls \<^verbatim>\<open>push\<close> when the string is not longer than the index (a
  string has at most as many code units as octets), and the assignment to an
  existing index of a string throws as well.
\<close>

function setNestedValue ::
    "(string \<times> jsval) list \<Rightarrow> string list \<Rightarrow> jsval \<Rightarrow> ParseOptions \<Rightarrow> nat
      \<Rightarrow> error + (string \<times> jsval) list"
  and handleArrayValue ::
    "(string \<times> jsval) list \<Rightarrow> string \<Rightarrow> string list \<Rightarrow> jsval \<Rightarrow> ParseOptions \<Rightarrow> nat
      \<Rightarrow> error + (string \<times> jsval) list"
where
  "setNestedValue obj keyPath v opts d =
     (if strictDepth opts \<and> d > depth opts then Inl (TsQsError ''DEPTH_EXCEEDED'')
      else if d > depth opts then handleDuplicateKey obj (collapsedKey keyPath) v opts
      else (case keyPath of
          [] \<Rightarrow> Inr obj
        | currentKey # path \<Rightarrow>
            if currentKey = [] then Inr obj
            else if \<not> allowPrototypes opts \<and> hasPrototypePollution currentKey then Inr obj
            else (case path of
                [] \<Rightarrow> handleDuplicateKey obj currentKey v opts
              | nextKey # others \<Rightarrow>
                  if getProp (plainObjects opts) obj currentKey = JBuiltin ''__proto__''
                  then Inl Unmodelled
                  else
                    (let obj1 =
                       (if \<not> truthy (getProp (plainObjects opts) obj currentKey) then
                          (if isArrayAccess nextKey \<and> parseArrays opts
                           then setProp obj currentKey (JArr [])
                           else setProp obj currentKey (JObj []))
                        else obj)
                     in if isArrayAccess nextKey \<and> parseArrays opts then
                          handleArrayValue obj1 currentKey path v opts (d + 1)
                        else (case getProp (plainObjects opts) obj1 currentKey of
                                JObj sub \<Rightarrow>
                                  (case setNestedValue sub path v opts (d + 1) of
                                     Inl e \<Rightarrow> Inl e
                                   | Inr sub' \<Rightarrow> Inr (setProp obj1 currentKey (JObj sub')))
                              | _ \<Rightarrow> Inr obj1)))))"
| "handleArrayValue obj key remainingPath v opts d =
     (let arr = getProp (plainObjects opts) obj key
      in case remainingPath of
          [] \<Rightarrow>
            (case arr of
               JArr xs \<Rightarrow>
                 (case setNestedValue (copyElements xs) remainingPath v opts d of
                    Inl e \<Rightarrow> Inl e
                  | Inr objValue \<Rightarrow> Inr (setProp obj key (JObj objValue)))
             | _ \<Rightarrow> Inl Unmodelled)
        | indexKey # rest \<Rightarrow>
            if indexKey = [] then
              (case arr of
                 JArr xs \<Rightarrow>
                   if rest = [] then Inr (setProp obj key (JArr (xs @ [v])))
                   else (case setNestedValue [] rest v opts d of
                           Inl e \<Rightarrow> Inl e
                         | Inr newObj \<Rightarrow> Inr (setProp obj key (JArr (xs @ [JObj newObj]))))
               | _ \<Rightarrow> Inl TypeError)
            else if isArrayIndex indexKey then
              (let index = digitsVal indexKey
               in if index > arrayLimit opts then
                    (let obj1 = (if \<not> isObject arr then setProp obj key (JObj []) else obj)
                     in case getProp (plainObjects opts) obj1 key of
                          JObj sub \<Rightarrow>
                            (case setNestedValue sub remainingPath v opts d of
                               Inl e \<Rightarrow> Inl e
                             | Inr sub' \<Rightarrow> Inr (setProp obj1 key (JObj sub')))
                        | _ \<Rightarrow> Inl Unmodelled)
                  else
                    (case arr of
                       JArr xs \<Rightarrow>
                         (let xs1 = xs @ replicate (index + 1 - length xs) JUndefined
                          in if rest = [] then
                               Inr (setProp obj key
                                 (JArr (xs1[index :=
                                    (if allowEmptyArrays opts \<and> v = JStr [] then JArr [] else v)])))
                             else
                               (case (if \<not> truthy (xs1 ! index) then JObj [] else xs1 ! index) of
                                  JObj sub \<Rightarrow>
                                    (case setNestedValue sub rest v opts d of
                                       Inl e \<Rightarrow> Inl e
                                     | Inr sub' \<Rightarrow>
                                         Inr (setProp obj key (JArr (xs1[index := JObj sub']))))
                                | _ \<Rightarrow> Inl Unmodelled))
                     | JObj ps \<Rightarrow>
                         if getProp (plainObjects opts) ps ''length'' \<noteq> JUndefined
                         then Inl Unmodelled
                         else if rest = [] then
                           Inr (setProp obj key
                             (JObj (setProp ps (showNat index)
                                (if allowEmptyArrays opts \<and> v = JStr [] then JArr [] else v))))
                         else
                           (case (if \<not> truthy (getProp (plainObjects opts) ps (showNat index))
                                  then JObj [] else getProp (plainObjects opts) ps (showNat index)) of
                              JObj sub \<Rightarrow>
                                (case setNestedValue sub rest v opts d of
                                   Inl e \<Rightarrow> Inl e
                                 | Inr sub' \<Rightarrow>
                                     Inr (setProp obj key
                                       (JObj (setProp ps (showNat index) (JObj sub')))))
                            | _ \<Rightarrow> Inl Unmodelled)
                     | JUndefined \<Rightarrow> Inl TypeError
                     | JNull \<Rightarrow> Inl TypeError
                     | JNum r \<Rightarrow> Inl TypeError
                     | JBool b \<Rightarrow> Inl TypeError
                     | JStr s \<Rightarrow>
                         if rest = [] \<or> length s \<le> index then Inl TypeError
                         else Inl Unmodelled
                     | JBuiltin k \<Rightarrow> Inl Unmodelled))
            else
              (case arr of
                 JArr xs \<Rightarrow>
                   (case setNestedValue (copyElements xs) remainingPath v opts d of
                      Inl e \<Rightarrow> Inl e
                    | Inr objValue \<Rightarrow> Inr (setProp obj key (JObj objValue)))
               | _ \<Rightarrow> Inl Unmodelled))"
  by pat_completeness auto
termination
  by (relation "measure (\<lambda>x. case x of
        Inl (obj, keyPath, v, opts, d) \<Rightarrow> 2 * length keyPath
      | Inr (obj, key, remainingPath, v, opts, d) \<Rightarrow> 2 * length remainingPath + 1)") auto

declare setNestedValue.simps [simp del] handleArrayValue.simps [simp del]

text \<open>\<^verbatim>\<open>decodeKey\<close> and \<^verbatim>\<open>decodeValue\<close>; \<open>defaultDecoder\<close> never throws, so the
  \<^verbatim>\<open>catch\<close> branches are not taken.\<close>

definition decodeKey :: "string \<Rightarrow> ParseOptions \<Rightarrow> string" where
  "decodeKey key opts = (if key = [] then [] else defaultDecoder key)"

definition decodeValue :: "string \<Rightarrow> ParseOptions \<Rightarrow> jsval" where
  "decodeValue v opts =
     (if v = [] then (if strictNullHandling opts then JNull else JStr [])
      else autoConvert (defaultDecoder v) (parseNumbers opts) (parseBooleans opts))"

definition parseKeyValue ::
  "(string \<times> jsval) list \<Rightarrow> string \<Rightarrow> jsval \<Rightarrow> ParseOptions \<Rightarrow> error + (string \<times> jsval) list" where
  "parseKeyValue result key v opts =
     (let v1 = (case v of
                  JStr s \<Rightarrow>
                    if comma opts \<and> CHR '','' \<in> set s then
                      JArr (map (\<lambda>p. autoConvert (trim p) (parseNumbers opts) (parseBooleans opts))
                              (splitOn '','' [] s))
                    else v
                | _ \<Rightarrow> v)
      in setNestedValue result (parseKeyPath key opts) v1 opts 0)"

text \<open>The loop of \<^verbatim>\<open>parse\<close> over the pairs, with \<^verbatim>\<open>result\<close> and \<^verbatim>\<open>parameterCount\<close>.\<close>

fun parseLoop ::
  "ParseOptions \<Rightarrow> (string \<times> jsval) list \<Rightarrow> nat \<Rightarrow> string list \<Rightarrow> error + (string \<times> jsval) list" where
  "parseLoop opts result parameterCount [] = Inr result"
| "parseLoop opts result parameterCount (pair # pairs) =
     (case checkLimit (parameterCount + 1) (parameterLimit opts) ''Parameter'' False of
        Some e \<Rightarrow> Inl e
      | None \<Rightarrow>
          if parameterCount + 1 > parameterLimit opts then Inr result
          else if pair = [] then parseLoop opts result (parameterCount + 1) pairs
          else
            (let key = takeWhile (\<lambda>c. c \<noteq> CHR ''='') pair;
                 v = (if CHR ''='' \<notin> set pair then []
                      else drop 1 (dropWhile (\<lambda>c. c \<noteq> CHR ''='') pair));
                 decodedKey = decodeKey key opts;
                 decodedValue = decodeValue v opts
             in if decodedKey = [] then parseLoop opts result (parameterCount + 1) pairs
                else (case parseKeyValue result decodedKey decodedValue opts of
                        Inl e \<Rightarrow> Inl e
                      | Inr result' \<Rightarrow> parseLoop opts result' (parameterCount + 1) pairs)))"

text \<open>\<^verbatim>\<open>parse\<close>; \<open>inputPairs\<close> is its list \<^verbatim>\<open>pairs\<close>. The first test is the check of \<^verbatim>\<open>ParseConfig.validate\<close> that the
  option types leave possible; an empty delimiter splits between UTF-16 code units and
  is left out.\<close>

definition inputPairs :: "string \<Rightarrow> ParseOptions \<Rightarrow> string list" where
  "inputPairs input opts =
     (let str0 = trim input;
          str = (if ignoreQueryPrefix opts \<and> take 1 str0 = ''?'' then drop 1 str0 else str0)
      in splitByDelimiter str (delimiter opts))"

definition parse :: "string \<Rightarrow> ParseOptions \<Rightarrow> error + jsval" where
  "parse input opts =
     (if decodeDotInKeys opts \<and> \<not> allowDots opts then Inl (TsQsError ''INVALID_DOT_DECODE'')
      else if input = [] then Inr (JObj [])
      else if delimiter opts = [] then Inl Unmodelled
      else (case parseLoop opts [] 0 (inputPairs input opts) of
              Inl e \<Rightarrow> Inl e
            | Inr result \<Rightarrow> Inr (JObj result)))"


section \<open>Stringifier (stringifier.ts)\<close>

datatype ArrayFormat = Indices | Brackets | Repeat | Comma

datatype Format = RFC3986 | RFC1738

text \<open>The option \<^verbatim>\<open>filter\<close>: absent, a list of allowed keys, or a function of key and
  value; \<^verbatim>\<open>sort\<close>: absent or a comparator.\<close>

datatype Filter =
    NoFilter
  | AllowList "string list"
  | FilterFunction "string \<Rightarrow> jsval \<Rightarrow> jsval"

text \<open>The fields that the parser's options also have carry a prime here, and so do
  \<^verbatim>\<open>filter\<close> and \<^verbatim>\<open>sort\<close>, which are functions on lists already.\<close>

record StringifyOptions =
  addQueryPrefix :: bool
  allowDots' :: bool
  allowEmptyArrays' :: bool
  arrayFormat :: ArrayFormat
  delimiter' :: string
  encode :: bool
  encodeDotInKeys :: bool
  encodeValuesOnly :: bool
  filter' :: Filter
  format :: Format
  skipNulls :: bool
  sort' :: "(string \<Rightarrow> string \<Rightarrow> int) option"
  strictNullHandling' :: bool

definition defaultStringifyOptions :: StringifyOptions where
  "defaultStringifyOptions =
     \<lparr> addQueryPrefix = False, allowDots' = False, allowEmptyArrays' = False,
       arrayFormat = Indices, delimiter' = ''&'', encode = True, encodeDotInKeys = False,
       encodeValuesOnly = False, filter' = NoFilter, format = RFC3986, skipNulls = False,
       sort' = None, strictNullHandling' = False \<rparr>"

subsection \<open>Encoding (encoding.ts)\<close>

definition hexDigit :: "nat \<Rightarrow> char" where
  "hexDigit n = (if n < 10 then char_of (48 + n) else char_of (55 + n))"

text \<open>\<^verbatim>\<open>%XX\<close> with upper-case digits.\<close>

definition percent :: "char \<Rightarrow> string" where
  "percent c = [CHR ''%'', hexDigit (of_char c div 16), hexDigit (of_char c mod 16)]"

definition isAlnum :: "char \<Rightarrow> bool" where
  "isAlnum c =
     (let n = (of_char c :: nat)
      in (48 \<le> n \<and> n \<le> 57) \<or> (65 \<le> n \<and> n \<le> 90) \<or> (97 \<le> n \<and> n \<le> 122))"

text \<open>\<^verbatim>\<open>encodeURIComponent\<close> of the platform, on the UTF-8 octets of the string.\<close>

definition encodeURIComponent :: "string \<Rightarrow> string" where
  "encodeURIComponent str =
     concat (map (\<lambda>c. if isAlnum c \<or> c \<in> set ''-_.!~*'' \<or> c \<in> set [CHR 0x27, CHR ''('', CHR '')'']
                        then [c] else percent c) str)"

definition rfc3986Encoder :: "string \<Rightarrow> string" where
  "rfc3986Encoder str =
     concat (map (\<lambda>c. if c \<in> set [CHR ''!'', CHR 0x27, CHR ''('', CHR '')'', CHR ''*'']
                        then percent c else [c])
               (encodeURIComponent str))"

text \<open>\<^verbatim>\<open>.replace(/%20/g, '+')\<close>.\<close>

fun replace20 :: "string \<Rightarrow> string" where
  "replace20 (a # b # c # r) =
     (if a = CHR ''%'' \<and> b = CHR ''2'' \<and> c = CHR ''0'' then CHR ''+'' # replace20 r
      else a # replace20 (b # c # r))"
| "replace20 s = s"

definition rfc1738Encoder :: "string \<Rightarrow> string" where
  "rfc1738Encoder str = replace20 (rfc3986Encoder str)"

definition getEncoder :: "Format \<Rightarrow> string \<Rightarrow> string" where
  "getEncoder fmt = (case fmt of RFC1738 \<Rightarrow> rfc1738Encoder | RFC3986 \<Rightarrow> rfc3986Encoder)"

definition encodeKey :: "string \<Rightarrow> (string \<Rightarrow> string) \<Rightarrow> StringifyOptions \<Rightarrow> string" where
  "encodeKey key encoder opts =
     (if \<not> encode opts then key
      else if encodeValuesOnly opts then key
      else encoder key)"

definition encodeValue :: "string \<Rightarrow> (string \<Rightarrow> string) \<Rightarrow> StringifyOptions \<Rightarrow> string" where
  "encodeValue v encoder opts = (if \<not> encode opts then v else encoder v)"

subsection \<open>The tree walker\<close>

text \<open>\<^verbatim>\<open>Array.prototype.join\<close> on strings.\<close>

fun joinWith :: "string \<Rightarrow> string list \<Rightarrow> string" where
  "joinWith sep [] = []"
| "joinWith sep [x] = x"
| "joinWith sep (x # y # ys) = x @ sep @ joinWith sep (y # ys)"

text \<open>\<^verbatim>\<open>String(v)\<close> for a mapping. The conversion calls the member \<^verbatim>\<open>toString\<close> of the
  mapping and, when that is not a function or does not return a primitive, the member
  \<^verbatim>\<open>valueOf\<close>. The inherited \<^verbatim>\<open>toString\<close> gives \<^verbatim>\<open>[object Object]\<close>. An own property
  \<^verbatim>\<open>toString\<close> that is not a function hides it, and a mapping without a prototype has
  none; the inherited \<^verbatim>\<open>valueOf\<close> returns the mapping itself, and so does not help:
  the conversion throws a \<^verbatim>\<open>TypeError\<close>. An own property that holds one of the
  functions of \<^verbatim>\<open>Object.prototype\<close> other than \<^verbatim>\<open>toString\<close> is left out.\<close>

definition objToString :: "bool \<Rightarrow> (string \<times> jsval) list \<Rightarrow> error + string" where
  "objToString plain ps =
     (case map_of ps ''toString'' of
        None \<Rightarrow>
          if plain then
            (case map_of ps ''valueOf'' of
               Some (JBuiltin k) \<Rightarrow> Inl Unmodelled
             | _ \<Rightarrow> Inl TypeError)
          else Inr ''[object Object]''
      | Some (JBuiltin k) \<Rightarrow> if k = ''toString'' then Inr ''[object Object]'' else Inl Unmodelled
      | Some w \<Rightarrow>
          (case map_of ps ''valueOf'' of
             Some (JBuiltin k) \<Rightarrow> Inl Unmodelled
           | _ \<Rightarrow> Inl TypeError))"

text \<open>\<^verbatim>\<open>String(v)\<close>, or the error it throws. An array prints its elements separated by
  commas, \<^verbatim>\<open>null\<close> and \<^verbatim>\<open>undefined\<close> elements as nothing.\<close>

fun jsToString :: "bool \<Rightarrow> jsval \<Rightarrow> error + string"
  and elemStrings :: "bool \<Rightarrow> jsval list \<Rightarrow> error + string list"
where
  "jsToString plain JUndefined = Inr ''undefined''"
| "jsToString plain JNull = Inr ''null''"
| "jsToString plain (JBool b) = Inr (if b then ''true'' else ''false'')"
| "jsToString plain (JNum r) = numToString r"
| "jsToString plain (JStr s) = Inr s"
| "jsToString plain (JArr xs) =
     (case elemStrings plain xs of Inl e \<Rightarrow> Inl e | Inr ss \<Rightarrow> Inr (joinWith '','' ss))"
| "jsToString plain (JObj ps) = objToString plain ps"
| "jsToString plain (JBuiltin k) =
     (if k = ''__proto__'' then Inr ''[object Object]''
      else Inr (''function '' @ (if k = ''constructor'' then ''Object'' else k) @
                ''() { [native code] }''))"
| "elemStrings plain [] = Inr []"
| "elemStrings plain (x # xs) =
     (case (if x = JUndefined \<or> x = JNull then Inr [] else jsToString plain x) of
        Inl e \<Rightarrow> Inl e
      | Inr s \<Rightarrow>
          (case elemStrings plain xs of Inl e \<Rightarrow> Inl e | Inr ss \<Rightarrow> Inr (s # ss)))"

text \<open>\<^verbatim>\<open>xs.map(f)\<close> for an \<open>f\<close> that may throw: the elements in turn, up to the first
  error.\<close>

fun mapE :: "('a \<Rightarrow> error + 'b) \<Rightarrow> 'a list \<Rightarrow> error + 'b list" where
  "mapE f [] = Inr []"
| "mapE f (x # xs) =
     (case f x of
        Inl e \<Rightarrow> Inl e
      | Inr y \<Rightarrow> (case mapE f xs of Inl e \<Rightarrow> Inl e | Inr ys \<Rightarrow> Inr (y # ys)))"

text \<open>\<^verbatim>\<open>pairs.push(...valuePairs)\<close> before the rest of a loop: the pairs of the first
  call, then those of the rest, unless one of them throws.\<close>

definition appendE :: "error + 'a list \<Rightarrow> error + 'a list \<Rightarrow> error + 'a list" where
  "appendE a b =
     (case a of
        Inl e \<Rightarrow> Inl e
      | Inr xs \<Rightarrow> (case b of Inl e \<Rightarrow> Inl e | Inr ys \<Rightarrow> Inr (xs @ ys)))"

text \<open>\<^verbatim>\<open>keys.sort(cmp)\<close>, as the stable sort it is for a comparator that is an ordering;
  here on the entries, which the code looks up by the sorted keys afterwards.\<close>

fun insertBy :: "(string \<Rightarrow> string \<Rightarrow> int) \<Rightarrow> string \<times> jsval \<Rightarrow> (string \<times> jsval) list
    \<Rightarrow> (string \<times> jsval) list" where
  "insertBy cmp x [] = [x]"
| "insertBy cmp x (y # ys) =
     (if cmp (fst x) (fst y) \<le> 0 then x # y # ys else y # insertBy cmp x ys)"

definition sortEntries :: "(string \<Rightarrow> string \<Rightarrow> int) option \<Rightarrow> (string \<times> jsval) list
    \<Rightarrow> (string \<times> jsval) list" where
  "sortEntries cmp entries =
     (case cmp of None \<Rightarrow> entries | Some f \<Rightarrow> foldr (insertBy f) entries [])"


definition stringifyNull :: "string \<Rightarrow> (string \<Rightarrow> string) \<Rightarrow> StringifyOptions \<Rightarrow> string list" where
  "stringifyNull key encoder opts =
     (if strictNullHandling' opts then [encodeKey key encoder opts]
      else [encodeKey key encoder opts @ ''=''])"

definition stringifyPrimitive ::
  "bool \<Rightarrow> string \<Rightarrow> jsval \<Rightarrow> (string \<Rightarrow> string) \<Rightarrow> StringifyOptions
    \<Rightarrow> error + string list" where
  "stringifyPrimitive plain key v encoder opts =
     (case jsToString plain v of
        Inl e \<Rightarrow> Inl e
      | Inr str \<Rightarrow> Inr [encodeKey key encoder opts @ ''='' @ encodeValue str encoder opts])"

text \<open>\<^verbatim>\<open>objKey.replace(/\./g, "%2E")\<close>.\<close>

definition encodeDots :: "string \<Rightarrow> string" where
  "encodeDots objKey = concat (map (\<lambda>c. if c = CHR ''.'' then ''%2E'' else [c]) objKey)"

text \<open>
  \<^verbatim>\<open>stringifyValue\<close>, \<^verbatim>\<open>stringifyArray\<close> and \<^verbatim>\<open>stringifyObject\<close>. \<open>arrayLoop\<close> is the
  \<^verbatim>\<open>for\<close> loop of \<^verbatim>\<open>stringifyArray\<close> from index \<open>i\<close> on (the whole array is kept for
  the comma format, which reads all of it at the first index); \<open>objectLoop\<close> is the loop
  of \<^verbatim>\<open>stringifyObject\<close> over the sorted keys. Each returns its pairs, or the error that
  \<^verbatim>\<open>String\<close> throws on the way.
\<close>

function stringifyValue ::
    "bool \<Rightarrow> string \<Rightarrow> jsval \<Rightarrow> (string \<Rightarrow> string) \<Rightarrow> StringifyOptions \<Rightarrow> string list
      \<Rightarrow> error + string list"
  and stringifyArray ::
    "bool \<Rightarrow> string \<Rightarrow> jsval list \<Rightarrow> (string \<Rightarrow> string) \<Rightarrow> StringifyOptions \<Rightarrow> string list
      \<Rightarrow> error + string list"
  and arrayLoop ::
    "bool \<Rightarrow> string \<Rightarrow> jsval list \<Rightarrow> nat \<Rightarrow> jsval list \<Rightarrow> (string \<Rightarrow> string) \<Rightarrow> StringifyOptions
      \<Rightarrow> string list \<Rightarrow> error + string list"
  and stringifyObject ::
    "bool \<Rightarrow> string \<Rightarrow> (string \<times> jsval) list \<Rightarrow> (string \<Rightarrow> string) \<Rightarrow> StringifyOptions \<Rightarrow> string list
      \<Rightarrow> error + string list"
  and objectLoop ::
    "bool \<Rightarrow> string \<Rightarrow> (string \<times> jsval) list \<Rightarrow> (string \<Rightarrow> string) \<Rightarrow> StringifyOptions \<Rightarrow> string list
      \<Rightarrow> error + string list"
where
  "stringifyValue plain key v encoder opts keyPath =
     (case v of
        JNull \<Rightarrow> Inr (stringifyNull key encoder opts)
      | JUndefined \<Rightarrow> Inr []
      | JArr xs \<Rightarrow> stringifyArray plain key xs encoder opts keyPath
      | JObj ps \<Rightarrow> stringifyObject plain key ps encoder opts keyPath
      | JBuiltin k \<Rightarrow> if k = ''__proto__'' then Inr [] else stringifyPrimitive plain key v encoder opts
      | _ \<Rightarrow> stringifyPrimitive plain key v encoder opts)"
| "stringifyArray plain key array encoder opts keyPath =
     (if array = [] then
        (if allowEmptyArrays' opts then Inr [encodeKey key encoder opts @ ''[]''] else Inr [])
      else arrayLoop plain key array 0 array encoder opts keyPath)"
| "arrayLoop plain key array i [] encoder opts keyPath = Inr []"
| "arrayLoop plain key array i (v # rest) encoder opts keyPath =
     (if v = JUndefined then arrayLoop plain key array (i + 1) rest encoder opts keyPath
      else (case arrayFormat opts of
              Indices \<Rightarrow>
                appendE
                  (stringifyValue plain (key @ ''['' @ showNat i @ '']'') v encoder opts (keyPath @ [key]))
                  (arrayLoop plain key array (i + 1) rest encoder opts keyPath)
            | Brackets \<Rightarrow>
                appendE
                  (stringifyValue plain (key @ ''[]'') v encoder opts (keyPath @ [key]))
                  (arrayLoop plain key array (i + 1) rest encoder opts keyPath)
            | Repeat \<Rightarrow>
                appendE
                  (stringifyValue plain key v encoder opts (keyPath @ [key]))
                  (arrayLoop plain key array (i + 1) rest encoder opts keyPath)
            | Comma \<Rightarrow>
                if i = 0 then
                  (case mapE (jsToString plain) (filter (\<lambda>v. v \<noteq> JUndefined) array) of
                     Inl e \<Rightarrow> Inl e
                   | Inr strs \<Rightarrow>
                       Inr [encodeKey key encoder opts @ ''='' @
                            joinWith (encoder '','')
                              (map (\<lambda>str. encodeValue str encoder opts) strs)])
                else arrayLoop plain key array (i + 1) rest encoder opts keyPath))"
| "stringifyObject plain key obj encoder opts keyPath =
     objectLoop plain key (sortEntries (sort' opts) obj) encoder opts keyPath"
| "objectLoop plain key [] encoder opts keyPath = Inr []"
| "objectLoop plain key ((objKey, v) # rest) encoder opts keyPath =
     (if v = JUndefined then objectLoop plain key rest encoder opts keyPath
      else if skipNulls opts \<and> v = JNull then objectLoop plain key rest encoder opts keyPath
      else
        (let nestedKey =
           (if allowDots' opts then
              (if encodeDotInKeys opts then key @ ''.'' @ encodeDots objKey
               else key @ ''.'' @ objKey)
            else key @ ''['' @ objKey @ '']'')
         in appendE (stringifyValue plain nestedKey v encoder opts (keyPath @ [key]))
              (objectLoop plain key rest encoder opts keyPath)))"
  by pat_completeness auto
termination
proof -
  have ins: "size_list f (insertBy c x ys) = size_list f (x # ys)"
    for f :: "string \<times> jsval \<Rightarrow> nat" and c x ys
    by (induction ys) auto
  have "size_list f (foldr (insertBy c) es []) = size_list f es"
    for f :: "string \<times> jsval \<Rightarrow> nat" and c es
    by (induction es) (auto simp: ins)
  then have srt: "size_list f (sortEntries c es) = size_list f es"
    for f :: "string \<times> jsval \<Rightarrow> nat" and c es
    by (auto simp: sortEntries_def split: option.splits)
  show ?thesis
    by (relation "measure (\<lambda>x. case x of
          Inl (Inl (plain, key, v, encoder, opts, keyPath)) \<Rightarrow> 2 * size v + 2
        | Inl (Inr (plain, key, array, encoder, opts, keyPath)) \<Rightarrow> 2 * size (JArr array) + 1
        | Inr (Inl (plain, key, array, i, rest, encoder, opts, keyPath)) \<Rightarrow> 2 * size (JArr rest)
        | Inr (Inr (Inl (plain, key, obj, encoder, opts, keyPath))) \<Rightarrow> 2 * size (JObj obj) + 1
        | Inr (Inr (Inr (plain, key, entries, encoder, opts, keyPath))) \<Rightarrow> 2 * size (JObj entries))")
      (auto simp: srt)
qed

declare stringifyValue.simps [simp del] stringifyArray.simps [simp del]
  stringifyObject.simps [simp del]



text \<open>The loop of \<^verbatim>\<open>stringify\<close> over the keys of the filtered object.\<close>

fun topLoop ::
  "bool \<Rightarrow> (string \<times> jsval) list \<Rightarrow> (string \<Rightarrow> string) \<Rightarrow> StringifyOptions
    \<Rightarrow> error + string list" where
  "topLoop plain [] encoder opts = Inr []"
| "topLoop plain ((key, v) # rest) encoder opts =
     (if v = JUndefined then topLoop plain rest encoder opts
      else if skipNulls opts \<and> v = JNull then topLoop plain rest encoder opts
      else appendE (stringifyValue plain key v encoder opts [])
             (topLoop plain rest encoder opts))"

text \<open>The part of \<^verbatim>\<open>stringify\<close> after the filter: sorting the keys, the loop, joining the
  pairs and the prefix.\<close>

definition stringifyFiltered ::
  "bool \<Rightarrow> (string \<times> jsval) list \<Rightarrow> StringifyOptions \<Rightarrow> error + string" where
  "stringifyFiltered plain filtered opts =
     (let encoder = (if encode opts then getEncoder (format opts) else (\<lambda>str. str))
      in case topLoop plain (sortEntries (sort' opts) filtered) encoder opts of
           Inl e \<Rightarrow> Inl e
         | Inr pairs \<Rightarrow>
             (let result = joinWith (delimiter' opts) pairs
              in Inr (if addQueryPrefix opts \<and> result \<noteq> [] then ''?'' @ result else result)))"



section \<open>The store\<close>

text \<open>
  For what \<^verbatim>\<open>stringify\<close> does to the objects it is given, the objects live in a store:
  a list of objects, an address being a position in it. A value is a primitive or a
  reference to an object; creating an object appends it to the store.
\<close>

datatype hval =
    HUndefined
  | HNull
  | HBool bool
  | HNum rat
  | HStr string
  | HRef nat
  | HBuiltin string

datatype hobj = HObj "(string \<times> hval) list" | HArr "hval list"

type_synonym heap = "hobj list"

definition alloc :: "heap \<Rightarrow> hobj \<Rightarrow> nat \<times> heap" where
  "alloc h ob = (length h, h @ [ob])"

text \<open>The own properties of the mapping at an address.\<close>

definition ownProps :: "heap \<Rightarrow> nat \<Rightarrow> (string \<times> hval) list" where
  "ownProps h a = (if a < length h then (case h ! a of HObj ps \<Rightarrow> ps | HArr xs \<Rightarrow> []) else [])"

text \<open>\<^verbatim>\<open>input[key]\<close> read, on the properties of an object.\<close>

definition getPropH :: "bool \<Rightarrow> (string \<times> hval) list \<Rightarrow> string \<Rightarrow> hval" where
  "getPropH plain ps key =
     (case map_of ps key of
        Some v \<Rightarrow> v
      | None \<Rightarrow> if \<not> plain \<and> key \<in> set objectPrototypeKeys then HBuiltin key else HUndefined)"

text \<open>\<^verbatim>\<open>result[key] = v\<close>: the mapping at the address gets the property.\<close>

definition writeProp :: "heap \<Rightarrow> nat \<Rightarrow> string \<Rightarrow> hval \<Rightarrow> heap" where
  "writeProp h a key v =
     (if a < length h then
        (case h ! a of HObj ps \<Rightarrow> h[a := HObj (setProp ps key v)] | HArr xs \<Rightarrow> h)
      else h)"

text \<open>The option \<^verbatim>\<open>filter\<close> over the store. A filter function is called with the key and
  the value, which may be a reference into the input; being code of the caller, it
  may do to the store what it likes, and returns a value and the store it leaves.\<close>

datatype FilterH =
    NoFilterH
  | AllowListH "string list"
  | FilterFunctionH "string \<Rightarrow> hval \<Rightarrow> heap \<Rightarrow> hval \<times> heap"

text \<open>\<^verbatim>\<open>applyFilter\<close> over the store: \<^verbatim>\<open>const result = {}\<close> creates an object, and the
  loop writes to it; the input is at the address \<open>input\<close>. Returns the address of the
  filtered object.\<close>

definition applyFilterH :: "bool \<Rightarrow> heap \<Rightarrow> nat \<Rightarrow> FilterH \<Rightarrow> (error + nat) \<times> heap" where
  "applyFilterH plain h input flt =
     (case flt of
        NoFilterH \<Rightarrow> (Inr input, h)
      | AllowListH keys \<Rightarrow>
          (let (result, h1) = alloc h (HObj [])
           in foldl (\<lambda>(r, hc) stringKey.
                  case r of
                    Inl e \<Rightarrow> (Inl e, hc)
                  | Inr res \<Rightarrow>
                      if stringKey \<in> fst ` set (ownProps hc input) \<or>
                         (\<not> plain \<and> stringKey \<in> set objectPrototypeKeys) then
                        (if stringKey = ''__proto__'' then
                           (if stringKey \<in> fst ` set (ownProps hc input)
                            then (Inl Unmodelled, hc) else (Inr res, hc))
                         else (Inr res,
                               writeProp hc res stringKey
                                 (getPropH plain (ownProps hc input) stringKey)))
                      else (Inr res, hc))
                (Inr result, h1) keys)
      | FilterFunctionH f \<Rightarrow>
          (let (result, h1) = alloc h (HObj [])
           in foldl (\<lambda>(r, hc) (key, v).
                  case r of
                    Inl e \<Rightarrow> (Inl e, hc)
                  | Inr res \<Rightarrow>
                      (let (filtered, h2) = f key v hc
                       in if filtered \<noteq> HUndefined then
                            (if key = ''__proto__'' then (Inl Unmodelled, h2)
                             else (Inr res, writeProp h2 res key filtered))
                          else (Inr res, h2)))
                (Inr result, h1) (ownProps h1 input)))"

text \<open>The tree below a value of the store, as the walker reads it. The first argument
  bounds the depth of the recursion; \<open>None\<close> when it is exhausted, as on a cyclic
  input.\<close>

fun reify :: "nat \<Rightarrow> heap \<Rightarrow> hval \<Rightarrow> jsval option" where
  "reify 0 h v = None"
| "reify (Suc n) h v =
     (case v of
        HUndefined \<Rightarrow> Some JUndefined
      | HNull \<Rightarrow> Some JNull
      | HBool b \<Rightarrow> Some (JBool b)
      | HNum r \<Rightarrow> Some (JNum r)
      | HStr s \<Rightarrow> Some (JStr s)
      | HBuiltin k \<Rightarrow> Some (JBuiltin k)
      | HRef a \<Rightarrow>
          if a < length h then
            (case h ! a of
               HObj ps \<Rightarrow>
                 map_option JObj (those (map (\<lambda>(k, x). map_option (Pair k) (reify n h x)) ps))
             | HArr xs \<Rightarrow> map_option JArr (those (map (reify n h) xs)))
          else None)"

text \<open>
  \<^verbatim>\<open>stringify\<close> over the store. Only \<^verbatim>\<open>applyFilter\<close> assigns to a property of an object;
  the rest of \<^verbatim>\<open>stringify\<close> and the walker assign to their own arrays \<^verbatim>\<open>pairs\<close> and
  \<^verbatim>\<open>keys\<close> alone (\<^verbatim>\<open>Object.keys\<close> returns a new array), which are the lists of
  \<open>stringifyFiltered\<close>, run on the tree read from the store. The filter is the last
  argument; the field \<open>filter'\<close> of the options is not read.
\<close>

definition stringifyH ::
  "bool \<Rightarrow> nat \<Rightarrow> heap \<Rightarrow> hval \<Rightarrow> StringifyOptions \<Rightarrow> FilterH \<Rightarrow> (error + string) \<times> heap" where
  "stringifyH plain fuel h input opts flt =
     (if encodeDotInKeys opts \<and> \<not> allowDots' opts
      then (Inl (TsQsError ''INVALID_DOT_ENCODE''), h)
      else (case input of
          HRef a \<Rightarrow>
            if a < length h then
              (case h ! a of
                 HObj ps \<Rightarrow>
                   (case applyFilterH plain h a flt of
                      (Inl e, h1) \<Rightarrow> (Inl e, h1)
                    | (Inr filtered, h1) \<Rightarrow>
                        (case reify fuel h1 (HRef filtered) of
                           Some (JObj fps) \<Rightarrow> (stringifyFiltered plain fps opts, h1)
                         | _ \<Rightarrow> (Inl RangeError, h1)))
               | HArr xs \<Rightarrow> (Inl Unmodelled, h))
            else (Inl Unmodelled, h)
        | _ \<Rightarrow> (Inr [], h)))"

text \<open>The store \<open>h'\<close> holds every object of \<open>h\<close>, at its address and as it was.\<close>

definition heapExtends :: "heap \<Rightarrow> heap \<Rightarrow> bool" where
  "heapExtends h h' = (take (length h) h' = h)"

section \<open>Predicates used in the statements\<close>

text \<open>The errors that the tree builder can end with.\<close>

definition knownError :: "error \<Rightarrow> bool" where
  "knownError e = (e = TsQsError ''DEPTH_EXCEEDED'' \<or> e = TypeError \<or> e = Unmodelled)"

text \<open>A string, number or boolean.\<close>

fun isScalar :: "jsval \<Rightarrow> bool" where
  "isScalar (JStr s) = True"
| "isScalar (JNum r) = True"
| "isScalar (JBool b) = True"
| "isScalar v = False"






section \<open>Strict null handling\<close>

text \<open>
  C2. With \<^verbatim>\<open>strictNullHandling\<close>, a key alone is to give \<^verbatim>\<open>null\<close> and \<^verbatim>\<open>key=\<close> the empty
  string. The loop of \<^verbatim>\<open>parse\<close> sets \<^verbatim>\<open>value\<close> to the empty string in both cases, and
  \<^verbatim>\<open>decodeValue\<close> turns every empty string into \<^verbatim>\<open>null\<close>: on the input of the
  repository's own test, \<^verbatim>\<open>a&b=\<close>, the explicit empty value of \<open>b\<close> comes out as
  \<^verbatim>\<open>null\<close> too, where the test expects \<^verbatim>\<open>{a: null, b: ''}\<close>.
\<close>

theorem parse_strictNull_explicit_empty_is_null:
  "parse ''a&b='' (defaultParseOptions\<lparr>strictNullHandling := True\<rparr>) =
     Inr (JObj [(''a'', JNull), (''b'', JNull)])"
  by code_simp

section \<open>Dots in keys\<close>

text \<open>
  C3. With \<^verbatim>\<open>allowDots\<close> and \<^verbatim>\<open>decodeDotInKeys\<close>, a dot that arrives as \<^verbatim>\<open>%2E\<close> is to stay
  inside its segment. \<^verbatim>\<open>parseKeyPath\<close> restores \<^verbatim>\<open>%2E\<close> before it splits, so the restored
  dot separates like any other: the key \<^verbatim>\<open>a%2Eb.c\<close> (sent as \<^verbatim>\<open>a%252Eb.c\<close>) nests three
  levels deep instead of giving the key \<^verbatim>\<open>a.b\<close> with the member \<open>c\<close>.
\<close>

theorem parse_decoded_dot_separates:
  "parse ''a%252Eb.c=1'' (defaultParseOptions\<lparr>allowDots := True, decodeDotInKeys := True\<rparr>) =
     Inr (JObj [(''a'', JObj [(''b'', JObj [(''c'', JStr ''1'')])])])"
  by code_simp

section \<open>The array limit\<close>

text \<open>
  C4. An index above \<^verbatim>\<open>arrayLimit\<close> is to turn the sequence at the key into a mapping
  that keeps the elements under their indices. \<^verbatim>\<open>handleArrayValue\<close> puts an empty
  mapping in place of the sequence: after \<^verbatim>\<open>a[0]=x\<close>, the pair \<^verbatim>\<open>a[21]=y\<close> leaves only
  the entry \<open>21\<close>, and \<open>x\<close> is lost.
\<close>

theorem parse_index_over_limit_drops_elements:
  "parse ''a[0]=x&a[21]=y'' defaultParseOptions =
     Inr (JObj [(''a'', JObj [(''21'', JStr ''y'')])])"
  by code_simp


section \<open>Errors of the tree builder\<close>

lemma knownError_simps [simp]:
  "knownError (TsQsError ''DEPTH_EXCEEDED'')" "knownError TypeError" "knownError Unmodelled"
  by (simp_all add: knownError_def)







section \<open>The parameter limit\<close>








section \<open>A deeper path through a scalar\<close>

text \<open>
  C10. After a pair has put a scalar at \<open>k\<close>, a later pair with a deeper path through
  \<open>k\<close> is to be dropped without an error. The branch of \<^verbatim>\<open>setNestedValue\<close> for a named
  next segment tests \<^verbatim>\<open>isObject\<close> and drops the pair: \<^verbatim>\<open>a=1&a[b]=2\<close> gives \<^verbatim>\<open>{a: '1'}\<close>.
  The branch for an array access has no such test: it hands the scalar to
  \<^verbatim>\<open>handleArrayValue\<close> as if it were an array, which calls \<^verbatim>\<open>push\<close> on it, and the parse
  of \<^verbatim>\<open>a=1&a[]=2\<close> and of \<^verbatim>\<open>a=1&a[5]=2\<close> ends with a \<^verbatim>\<open>TypeError\<close>.
\<close>

theorem deeper_pair_array_segment_throws:
  "parse ''a=1&a[]=2'' defaultParseOptions = Inl TypeError \<and>
   parse ''a=1&a[5]=2'' defaultParseOptions = Inl TypeError \<and>
   parse ''a=1&a[b]=2'' defaultParseOptions = Inr (JObj [(''a'', JStr ''1'')])"
  by code_simp

text \<open>
  The branch that has the test, in general: when the mapping holds at \<open>k\<close> a scalar that
  counts as true and the segment after \<open>k\<close> is not an array access (or arrays are not
  parsed), the pair is dropped: no error, and the mapping is as before.
\<close>

lemma deeper_pair_discarded:
  assumes "map_of result k = Some s" and "isScalar s" and "truthy s"
    and "parseKeyPath key opts = k # seg # rest"
    and "\<not> (isArrayAccess seg \<and> parseArrays opts)"
  shows "parseKeyValue result key v opts = Inr result"
proof -
  have g: "getProp (plainObjects opts) result k = s"
    using assms(1) by (simp add: getProp_def)
  have nb: "s \<noteq> JBuiltin ''__proto__''"
    using assms(2) by auto
  have "setNestedValue result (k # seg # rest) w opts 0 = Inr result" for w
    using assms(2,3,5) g nb
    by (subst setNestedValue.simps) (cases s; auto simp: Let_def)
  then show ?thesis
    by (simp add: parseKeyValue_def assms(4) Let_def)
qed

section \<open>The depth limit\<close>





lemma map_fst_updProp: "map fst (updProp k v ps) = map fst ps"
  by (induction ps) auto

lemma keys_updProp [simp]: "fst ` set (updProp k v ps) = fst ` set ps"
  using map_fst_updProp [of k v ps] by (metis set_map)

lemma updProp_updProp [simp]: "updProp k b (updProp k a ps) = updProp k b ps"
  by (induction ps) auto

lemma updProp_insProp: "k \<notin> fst ` set ps \<Longrightarrow> updProp k b (insProp k a ps) = insProp k b ps"
  by (induction ps) auto

lemma keys_insProp [simp]: "fst ` set (insProp k v ps) = insert k (fst ` set ps)"
proof (induction ps)
  case Nil
  then show ?case by simp
next
  case (Cons p ps)
  obtain a b where "p = (a, b)" by (cases p)
  with Cons show ?case by (simp add: insert_commute)
qed

lemma setProp_setProp [simp]: "setProp (setProp obj k a) k b = setProp obj k b"
  by (auto simp: setProp_def updProp_insProp)

lemma map_of_updProp: "k \<in> fst ` set ps \<Longrightarrow> map_of (updProp k v ps) k = Some v"
  by (induction ps) (auto simp: rev_image_eqI)

lemma map_of_insProp: "k \<notin> fst ` set ps \<Longrightarrow> map_of (insProp k v ps) k = Some v"
  by (induction ps) auto

lemma getProp_setProp [simp]: "getProp plain (setProp obj k v) k = v"
  by (auto simp: getProp_def setProp_def map_of_updProp map_of_insProp)








section \<open>Mappings with index keys\<close>

text \<open>
  C5. In the result of \<^verbatim>\<open>parse\<close>, a mapping whose keys are all decimal indices is to be
  turned into a sequence unless it is too sparse, and always when \<^verbatim>\<open>allowSparse\<close> is on.
  The conversion is written, as \<^verbatim>\<open>maybeConvertToArray\<close> in \<^verbatim>\<open>utils.ts\<close>, but \<^verbatim>\<open>parse\<close> never
  calls it and never reads \<^verbatim>\<open>allowSparse\<close>: the key \<^verbatim>\<open>a[0][0]\<close> leaves the mapping with
  the single key \<open>0\<close> in the result, with \<^verbatim>\<open>allowSparse\<close> off and on, where the
  conversion gives a sequence of one element.
\<close>

theorem parse_keeps_index_mapping:
  "parse ''a[0][0]=x'' defaultParseOptions = Inr (JObj [(''a'', JArr [JObj [(''0'', JStr ''x'')]])]) \<and>
   parse ''a[0][0]=x'' (defaultParseOptions\<lparr>allowSparse := True\<rparr>) =
     Inr (JObj [(''a'', JArr [JObj [(''0'', JStr ''x'')]])]) \<and>
   maybeConvertToArray [(''0'', JStr ''x'')] False = Inr (JArr [JStr ''x''])"
  by code_simp

section \<open>The comma format\<close>




section \<open>The input of stringify\<close>

text \<open>Every write of \<^verbatim>\<open>stringify\<close> goes to an object it has created itself, so a store
  it returns extends the one it was given.\<close>

lemma heapExtends_refl [simp]: "heapExtends h h"
  by (simp add: heapExtends_def)

lemma heapExtends_length:
  assumes "heapExtends h h'"
  shows "length h \<le> length h'"
proof -
  from assms have "length (take (length h) h') = length h"
    by (simp add: heapExtends_def)
  then show ?thesis
    by (simp add: min_def split: if_splits)
qed

lemma heapExtends_nth:
  assumes "heapExtends h h'" and "a < length h"
  shows "h' ! a = h ! a"
proof -
  from assms(1) have "h ! a = take (length h) h' ! a"
    by (simp add: heapExtends_def)
  also from assms(2) have "\<dots> = h' ! a"
    by simp
  finally show ?thesis
    by simp
qed

lemma heapExtends_trans: "heapExtends h1 h2 \<Longrightarrow> heapExtends h2 h3 \<Longrightarrow> heapExtends h1 h3"
proof -
  assume a: "heapExtends h1 h2" and b: "heapExtends h2 h3"
  have "take (length h1) h3 = take (length h1) (take (length h2) h3)"
    using heapExtends_length [OF a] by (simp add: min_def)
  with a b show ?thesis by (simp add: heapExtends_def)
qed

lemma heapExtends_alloc: "heapExtends h (snd (alloc h ob))"
  by (simp add: heapExtends_def alloc_def)

lemma length_writeProp [simp]: "length (writeProp h a key v) = length h"
  by (simp add: writeProp_def split: hobj.splits)

lemma heapExtends_writeProp:
  "heapExtends h0 h \<Longrightarrow> length h0 \<le> a \<Longrightarrow> heapExtends h0 (writeProp h a key v)"
  by (auto simp: heapExtends_def writeProp_def split: hobj.splits)

lemma applyFilterH_extends:
  assumes "\<And>f k v s. flt = FilterFunctionH f \<Longrightarrow> heapExtends s (snd (f k v s))"
  shows "heapExtends h (snd (applyFilterH plain h input flt))"
proof (cases flt)
  case NoFilterH
  then show ?thesis by (simp add: applyFilterH_def)
next
  case (AllowListH keys)
  let ?step = "\<lambda>(r, hc) stringKey.
      case r of
        Inl e \<Rightarrow> (Inl e, hc)
      | Inr res \<Rightarrow>
          if stringKey \<in> fst ` set (ownProps hc input) \<or>
             (\<not> plain \<and> stringKey \<in> set objectPrototypeKeys) then
            (if stringKey = ''__proto__'' then
               (if stringKey \<in> fst ` set (ownProps hc input)
                then (Inl Unmodelled, hc) else (Inr res, hc))
             else (Inr res, writeProp hc res stringKey
                     (getPropH plain (ownProps hc input) stringKey)))
          else (Inr res, hc)"
  have inv: "heapExtends h (snd (foldl ?step (r, hc) ks))"
    if "heapExtends h hc" "\<And>res. r = Inr res \<Longrightarrow> length h \<le> res" for r hc ks
    using that
  proof (induction ks arbitrary: r hc)
    case Nil
    then show ?case by simp
  next
    case (Cons k ks)
    show ?case
      using Cons.prems
      by (cases r) (auto intro!: Cons.IH heapExtends_writeProp)
  qed
  have "heapExtends h (h @ [HObj []])"
    by (simp add: heapExtends_def)
  then have "heapExtends h (snd (foldl ?step (Inr (length h), h @ [HObj []]) keys))"
    by (intro inv) auto
  then show ?thesis
    unfolding AllowListH applyFilterH_def alloc_def
    by simp
next
  case (FilterFunctionH f)
  let ?step = "\<lambda>(r, hc) (key, v).
      case r of
        Inl e \<Rightarrow> (Inl e, hc)
      | Inr res \<Rightarrow>
          (let (filtered, h2) = f key v hc
           in if filtered \<noteq> HUndefined then
                (if key = ''__proto__'' then (Inl Unmodelled, h2)
                 else (Inr res, writeProp h2 res key filtered))
              else (Inr res, h2))"
  have fx: "heapExtends s (snd (f k v s))" for k v s
    using assms FilterFunctionH by simp
  have inv: "heapExtends h (snd (foldl ?step (r, hc) es))"
    if "heapExtends h hc" "\<And>res. r = Inr res \<Longrightarrow> length h \<le> res" for r hc es
    using that
  proof (induction es arbitrary: r hc)
    case Nil
    then show ?case by simp
  next
    case (Cons e es)
    obtain k v where e: "e = (k, v)" by (cases e)
    obtain w h2 where f: "f k v hc = (w, h2)" by (cases "f k v hc")
    from fx [of hc k v] f have "heapExtends hc h2" by simp
    with Cons.prems(1) have x: "heapExtends h h2" by (rule heapExtends_trans)
    show ?case
      using Cons.prems x
      by (cases r) (auto simp: e f intro!: Cons.IH heapExtends_writeProp)
  qed
  have "heapExtends h (h @ [HObj []])"
    by (simp add: heapExtends_def)
  then have "heapExtends h (snd (foldl ?step (Inr (length h), h @ [HObj []])
      (ownProps (h @ [HObj []]) input)))"
    by (intro inv) auto
  then show ?thesis
    unfolding FilterFunctionH applyFilterH_def alloc_def
    by simp
qed

lemma those_map_Some:
  "those (map f xs) = Some ys \<Longrightarrow> x \<in> set xs \<Longrightarrow> \<exists>y. f x = Some y"
  by (induction xs arbitrary: ys) (auto split: option.splits)

lemma reify_extends:
  "reify n h v = Some t \<Longrightarrow> heapExtends h h' \<Longrightarrow> reify n h' v = Some t"
proof (induction n arbitrary: v t)
  case 0
  then show ?case by simp
next
  case (Suc n)
  show ?case
  proof (cases v)
    case (HRef a)
    with Suc.prems(1) have a: "a < length h"
      by (auto split: if_splits)
    with Suc.prems(2) have a': "a < length h'" and eq: "h' ! a = h ! a"
      using heapExtends_length heapExtends_nth by fastforce+
    show ?thesis
    proof (cases "h ! a")
      case (HObj ps)
      with Suc.prems(1) HRef a obtain ys where
        ys: "those (map (\<lambda>(k, x). map_option (Pair k) (reify n h x)) ps) = Some ys"
        by auto
      have m: "map (\<lambda>(k, x). map_option (Pair k) (reify n h' x)) ps =
          map (\<lambda>(k, x). map_option (Pair k) (reify n h x)) ps"
      proof (rule map_cong [OF refl])
        fix e assume e: "e \<in> set ps"
        obtain k x where kx: "e = (k, x)" by (cases e)
        from those_map_Some [OF ys e] kx obtain y where "reify n h x = Some y"
          by auto
        with Suc.IH [OF _ Suc.prems(2)] have "reify n h' x = reify n h x" by simp
        then show "(case e of (k, x) \<Rightarrow> map_option (Pair k) (reify n h' x)) =
            (case e of (k, x) \<Rightarrow> map_option (Pair k) (reify n h x))"
          by (simp add: kx)
      qed
      from Suc.prems(1) show ?thesis by (simp add: HRef HObj a a' eq m)
    next
      case (HArr xs)
      with Suc.prems(1) HRef a obtain ys where
        ys: "those (map (reify n h) xs) = Some ys"
        by auto
      have m: "map (reify n h') xs = map (reify n h) xs"
      proof (rule map_cong [OF refl])
        fix x assume "x \<in> set xs"
        from those_map_Some [OF ys this] obtain y where "reify n h x = Some y"
          by auto
        with Suc.IH [OF _ Suc.prems(2)] show "reify n h' x = reify n h x" by simp
      qed
      from Suc.prems(1) show ?thesis by (simp add: HRef HArr a a' eq m)
    qed
  qed (use Suc.prems in auto)
qed

text \<open>
  Claim C9: \<^verbatim>\<open>stringify\<close> never mutates its input. Every object of the store is, after
  the call, at its address and as it was, and the tree read from the input is the
  same tree, with no filter, with an allow-list and with a filter function. A filter
  function is code of the caller that runs during the call; the first hypothesis
  says of it that it does not itself write to an object that exists, which is all
  that is asked of it: it may create objects and return any value. The second
  hypothesis says that the input is a finite tree, read to the depth \<open>n\<close>.
\<close>

theorem stringify_leaves_input_unchanged:
  assumes "\<And>f k v s. flt = FilterFunctionH f \<Longrightarrow> heapExtends s (snd (f k v s))"
    and "reify n h input = Some t"
  shows "heapExtends h (snd (stringifyH plain fuel h input opts flt)) \<and>
         reify n (snd (stringifyH plain fuel h input opts flt)) input = Some t"
proof -
  have af: "heapExtends h (snd (applyFilterH plain h a flt))" for a
    by (rule applyFilterH_extends) (rule assms(1))
  have x: "heapExtends h (snd (stringifyH plain fuel h input opts flt))"
  proof (cases "\<exists>a ps. input = HRef a \<and> a < length h \<and> h ! a = HObj ps \<and>
      \<not> (encodeDotInKeys opts \<and> \<not> allowDots' opts)")
    case True
    then obtain a ps where i: "input = HRef a" "a < length h" "h ! a = HObj ps"
      and o: "\<not> (encodeDotInKeys opts \<and> \<not> allowDots' opts)"
      by blast
    obtain r h1 where r: "applyFilterH plain h a flt = (r, h1)"
      by (cases "applyFilterH plain h a flt")
    with af [of a] have "heapExtends h h1"
      by simp
    moreover have "snd (stringifyH plain fuel h input opts flt) = h1"
      using i o r
      by (auto simp: stringifyH_def split: sum.splits option.splits jsval.splits)
    ultimately show ?thesis
      by simp
  next
    case False
    then have "snd (stringifyH plain fuel h input opts flt) = h"
      by (auto simp: stringifyH_def split: hval.splits hobj.splits)
    then show ?thesis
      by simp
  qed
  with assms(2) reify_extends show ?thesis
    by blast
qed

text \<open>The theorem on a mapping with a nested mapping, and a filter function that leaves
  out the password.\<close>

theorem stringify_leaves_input_unchanged_witness:
  "heapExtends
     [HObj [(''user'', HRef 1), (''password'', HStr ''x'')], HObj [(''name'', HStr ''bob'')]]
     (snd (stringifyH False 4
        [HObj [(''user'', HRef 1), (''password'', HStr ''x'')], HObj [(''name'', HStr ''bob'')]]
        (HRef 0) defaultStringifyOptions
        (FilterFunctionH (\<lambda>k v s. (if k = ''password'' then HUndefined else v, s))))) \<and>
   reify 3
     (snd (stringifyH False 4
        [HObj [(''user'', HRef 1), (''password'', HStr ''x'')], HObj [(''name'', HStr ''bob'')]]
        (HRef 0) defaultStringifyOptions
        (FilterFunctionH (\<lambda>k v s. (if k = ''password'' then HUndefined else v, s)))))
     (HRef 0) =
   Some (JObj [(''user'', JObj [(''name'', JStr ''bob'')]), (''password'', JStr ''x'')])"
proof -
  have b: "reify 3
      [HObj [(''user'', HRef 1), (''password'', HStr ''x'')], HObj [(''name'', HStr ''bob'')]]
      (HRef 0) =
      Some (JObj [(''user'', JObj [(''name'', JStr ''bob'')]), (''password'', JStr ''x'')])"
    by code_simp
  show ?thesis
    by (rule stringify_leaves_input_unchanged) (force, rule b)
qed

end
